theory Spec2Isabelle
  imports Main "HOL-Library.AList"
begin

section \<open>Values, mappings and the store\<close>

text \<open>
  The development embeds \<^verbatim>\<open>eventhandler/baseclass.py\<close>. Python values that occur in
  raw events, payloads and runner attributes are \<open>None\<close>, booleans, integers (unbounded) and
  strings. A character of the model stands for the code point of the same number, so a
  string of the model is a Python \<open>str\<close> of code points below 256.
\<close>

datatype pyval = PNone | PBool bool | PInt int | PStr string

text \<open>Truth value testing, as \<open>if x:\<close> does it.\<close>

fun truthy :: "pyval \<Rightarrow> bool" where
  "truthy PNone = False"
| "truthy (PBool b) = b"
| "truthy (PInt i) = (i \<noteq> 0)"
| "truthy (PStr s) = (s \<noteq> [])"

text \<open>
  A \<open>dict\<close> keeps its keys in insertion order: an association list, read with
  \<^const>\<open>map_of\<close> and written with \<^const>\<open>AList.update\<close> (which replaces the value of a
  present key in place and appends an absent one, as \<open>d[k] = v\<close> does).

  The raw event is handed around by reference and written in place, so dictionaries live
  in a store and the program holds their addresses.
\<close>

type_synonym pydict = "(string \<times> pyval) list"
type_synonym ref = nat
type_synonym store = "ref \<Rightarrow> pydict"

text \<open>
  Exceptions, all of them subclasses of \<open>Exception\<close>. \<open>Raised m\<close> is an exception raised
  by plugin code or by an explicit \<open>raise Exception(m)\<close>, with \<open>str(e) = m\<close>;
  \<open>RunnerTimeoutError m\<close> is the class of this module; the others are raised by the
  interpreter and carry the literal or the name they complain about.
\<close>

datatype exn =
    Raised string
  | ValueError string
  | AttributeError string
  | TypeError string
  | RunnerTimeoutError string

text \<open>\<open>bool(str(e))\<close>: the interpreter's own messages are never empty.\<close>

fun str_exn_nonempty :: "exn \<Rightarrow> bool" where
  "str_exn_nonempty (Raised m) = (m \<noteq> [])"
| "str_exn_nonempty (ValueError _) = True"
| "str_exn_nonempty (AttributeError _) = True"
| "str_exn_nonempty (TypeError _) = True"
| "str_exn_nonempty (RunnerTimeoutError m) = (m \<noteq> [])"

subsection \<open>\<open>str.isdigit\<close> and \<open>int\<close>\<close>

text \<open>
  Below code point 256 the decimal digits are \<open>0\<close> to \<open>9\<close>; \<open>str.isdigit\<close> accepts in
  addition the superscript digits U+00B2, U+00B3 and U+00B9, which \<open>int\<close> rejects.
\<close>

definition is_decimal_char :: "char \<Rightarrow> bool" where
  "is_decimal_char c = (48 \<le> (of_char c :: nat) \<and> (of_char c :: nat) \<le> 57)"

definition is_digit_char :: "char \<Rightarrow> bool" where
  "is_digit_char c =
     (is_decimal_char c \<or> (of_char c :: nat) = 178 \<or> (of_char c :: nat) = 179
        \<or> (of_char c :: nat) = 185)"

definition isdigit :: "string \<Rightarrow> bool" where
  "isdigit s = (s \<noteq> [] \<and> list_all is_digit_char s)"

definition decimal_value :: "string \<Rightarrow> int" where
  "decimal_value s = foldl (\<lambda>n c. 10 * n + (int (of_char c) - 48)) 0 s"

text \<open>
  \<open>int(s)\<close> for a string \<open>s\<close> that has passed \<open>s.isdigit()\<close>: such a string has neither
  sign, blanks nor underscores, so the conversion succeeds exactly when every character is
  a decimal digit, and raises \<open>ValueError\<close> otherwise. Integers are unbounded; the limit
  that the interpreter can put on the length of a converted string
  (\<open>sys.int_max_str_digits\<close>) is not modelled.
\<close>

definition py_int :: "string \<Rightarrow> exn + int" where
  "py_int s =
     (if s \<noteq> [] \<and> list_all is_decimal_char s then Inr (decimal_value s)
      else Inl (ValueError s))"

section \<open>DecidedEvent\<close>

text \<open>
  The fields of the class; \<open>eventopts\<close> holds the address of the dictionary it was given.
  \<open>is_heartbeat\<close> is unset (\<open>None\<close> of the option type) until its setter is called.
\<close>

record decided_event =
  eventopts :: ref
  is_heartbeat :: "pyval option"
  payload :: "pydict option"
  summary :: "string option"
  runneropts :: pydict
  discarded :: bool
  discarded_silently :: bool

text \<open>
  The loop of \<open>__init__\<close>: for every key of the dictionary, in order, a value that is a
  \<open>str\<close> with \<open>isdigit()\<close> is replaced by \<open>int\<close> of it, in the dictionary itself. The
  result is the dictionary as the loop left it and the exception that stopped it, if any.
\<close>

fun coerce_loop :: "string list \<Rightarrow> pydict \<Rightarrow> pydict \<times> exn option" where
  "coerce_loop [] d = (d, None)"
| "coerce_loop (k # ks) d =
     (case map_of d k of
        Some (PStr s) \<Rightarrow>
          (if isdigit s then
             (case py_int s of
                Inl e \<Rightarrow> (d, Some e)
              | Inr n \<Rightarrow> coerce_loop ks (AList.update k (PInt n) d))
           else coerce_loop ks d)
      | _ \<Rightarrow> coerce_loop ks d)"

text \<open>
  \<open>DecidedEvent(eventopts)\<close>. \<open>str_dict\<close> is Python's \<open>str\<close> on a dictionary, which the
  default summary uses. The constructor returns the store it leaves behind and either the
  new event or the exception it raised.
\<close>

definition DecidedEvent ::
  "(pydict \<Rightarrow> string) \<Rightarrow> store \<Rightarrow> ref \<Rightarrow> store \<times> (exn + decided_event)" where
  "DecidedEvent str_dict h r =
     (case coerce_loop (map fst (h r)) (h r) of
        (d, Some e) \<Rightarrow> (h(r := d), Inl e)
      | (d, None) \<Rightarrow>
          (h(r := d),
           Inr \<lparr> eventopts = r, is_heartbeat = None, payload = None,
                 summary = Some (str_dict d), runneropts = [],
                 discarded = False, discarded_silently = True \<rparr>))"

definition is_complete :: "decided_event \<Rightarrow> bool" where
  "is_complete ev = (if payload ev = None \<or> summary ev = None then False else True)"

definition discard :: "bool \<Rightarrow> decided_event \<Rightarrow> decided_event" where
  "discard silently ev =
     ev\<lparr> discarded := True, discarded_silently := (if silently then True else False) \<rparr>"

section \<open>Logging\<close>

text \<open>
  A call \<open>logger.critical(fmt.format(a, b, ...))\<close> is recorded as its level, the format
  string of the source and the arguments in order. Only the calls of this module are
  recorded; what a decider or a runner logs by itself is not part of the model.
\<close>

datatype level = DEBUG | INFO | CRITICAL

datatype logarg = AStr string | ABytes string | AInt int | AExn exn | ANone

type_synonym log_record = "level \<times> string \<times> logarg list"

text \<open>\<open>decided_event.summary\<close> as a format argument.\<close>

definition summary_arg :: "decided_event \<Rightarrow> logarg" where
  "summary_arg ev = (case summary ev of None \<Rightarrow> ANone | Some s \<Rightarrow> AStr s)"

text \<open>\<open>stdout if stdout else ""\<close>, for the captured output (bytes, or \<open>None\<close> before
  the process has run).\<close>

definition or_empty :: "string option \<Rightarrow> logarg" where
  "or_empty out = (case out of None \<Rightarrow> AStr [] | Some b \<Rightarrow> if b \<noteq> [] then ABytes b else AStr [])"

section \<open>The collaborators: decider, runner plugin, environment\<close>

text \<open>
  A decider instance: the name of its class, the file of its module, and its method
  \<open>decide_and_prepare\<close>. The method is given the \<open>runner\<close> attribute that was set on the
  instance, the store and the event; it leaves a store and an event behind and either
  returns or raises.
\<close>

record decider =
  class_name :: string
  module_file :: string
  decide_and_prepare :: "pyval \<Rightarrow> store \<Rightarrow> decided_event \<Rightarrow> store \<times> decided_event \<times> exn option"

text \<open>What the body of \<open>new_decider\<close> runs into: \<open>ImportError\<close>, another exception, or an
  instance.\<close>

datatype import_result = ImportFailed | InstantiationFailed exn | Imported decider

text \<open>
  The attributes of the Runner object, as \<open>hasattr\<close>, \<open>getattr\<close> and \<open>setattr\<close> see its
  data attributes; the names of its methods and of the attributes of its class are not in
  the map.
\<close>

type_synonym runner = "string \<rightharpoonup> pyval"

text \<open>
  Everything the module takes from outside: \<open>str\<close> of a dictionary, the import of the
  decider module, the environment variable \<open>OMD_SITE\<close>, host name, domain name and clock
  (\<open>time_time n\<close> is the n-th reading of \<open>int(time.time())\<close>), the runner-specific method
  \<open>run\<close> and the process executor. \<open>run\<close> reads the Runner, the store and the event; it
  tells whether it called \<open>no_more_logging\<close> and either raises or returns its command
  (\<open>None\<close> or a string), and writes nothing else. The executor either raises or yields
  stdout, stderr and the exit code.
\<close>

record env =
  str_dict :: "pydict \<Rightarrow> string"
  import_decider :: "string \<Rightarrow> import_result"
  environ_OMD_SITE :: "string option"
  gethostname :: string
  getfqdn :: string
  time_time :: "nat \<Rightarrow> int"
  run :: "runner \<Rightarrow> store \<Rightarrow> decided_event \<Rightarrow> bool \<times> (exn + string option)"
  popen :: "string \<Rightarrow> exn + string \<times> string \<times> int"

text \<open>
  The calls that leave the module, kept as a trace: \<open>self.run(...)\<close>, with the attributes
  the Runner has at that moment, and \<open>subprocess.Popen(command, ...)\<close>.
\<close>

datatype extcall = RunCall runner | PopenCall string

record world =
  heap :: store
  self :: runner
  logs :: "log_record list"
  calls :: "extcall list"

definition logger :: "level \<Rightarrow> string \<Rightarrow> logarg list \<Rightarrow> world \<Rightarrow> world" where
  "logger lvl fmt args w = w\<lparr> logs := logs w @ [(lvl, fmt, args)] \<rparr>"

section \<open>EventhandlerRunner\<close>

text \<open>\<open>__init__\<close>: the summary flag, then every option as an attribute.\<close>

fun setattr_loop :: "string list \<Rightarrow> pydict \<Rightarrow> runner \<Rightarrow> runner" where
  "setattr_loop [] opts s = s"
| "setattr_loop (opt # rest) opts s =
     setattr_loop rest opts (case map_of opts opt of Some v \<Rightarrow> s(opt \<mapsto> v) | None \<Rightarrow> s)"

definition EventhandlerRunner :: "pydict \<Rightarrow> runner" where
  "EventhandlerRunner opts =
     setattr_loop (map fst opts) opts [''baseclass_logs_summary'' \<mapsto> PBool True]"

definition no_more_logging :: "runner \<Rightarrow> runner" where
  "no_more_logging s = s(''baseclass_logs_summary'' \<mapsto> PBool False)"

definition new_decider :: "env \<Rightarrow> world \<Rightarrow> world \<times> decider option" where
  "new_decider env w =
     (case self w ''decider_name'' of
        None \<Rightarrow>
          (logger CRITICAL ''unknown error error in decider instantiation: {}''
             [AExn (AttributeError ''decider_name'')] w, None)
      | Some (PStr module_name) \<Rightarrow>
          (case import_decider env module_name of
             Imported instance \<Rightarrow> (w, Some instance)
           | ImportFailed \<Rightarrow>
               (logger CRITICAL ''found no decider module {}'' [AStr module_name] w, None)
           | InstantiationFailed e \<Rightarrow>
               (logger CRITICAL ''unknown error error in decider instantiation: {}''
                  [AExn e] w, None))
      | Some _ \<Rightarrow>
          (logger CRITICAL ''unknown error error in decider instantiation: {}''
             [AExn (AttributeError ''split'')] w, None))"

text \<open>The writes into the raw event before the decision; the timestamp is written twice,
  from two readings of the clock.\<close>

definition stamp_raw_event :: "env \<Rightarrow> pydict \<Rightarrow> pydict" where
  "stamp_raw_event env d =
     (let d1 = (if map_of d ''omd_site'' = None
                then AList.update ''omd_site''
                       (PStr (case environ_OMD_SITE env of
                                Some v \<Rightarrow> v
                              | None \<Rightarrow> ''get https://omd.consol.de/docs/omd'')) d
                else d);
          d2 = AList.update ''omd_originating_host'' (PStr (gethostname env)) d1;
          d3 = AList.update ''omd_originating_fqdn'' (PStr (getfqdn env)) d2;
          d4 = AList.update ''omd_originating_timestamp'' (PInt (time_time env 0)) d3
      in AList.update ''omd_originating_timestamp'' (PInt (time_time env 1)) d4)"

definition endswith :: "string \<Rightarrow> string \<Rightarrow> bool" where
  "endswith s suffix =
     (length suffix \<le> length s \<and> drop (length s - length suffix) s = suffix)"

text \<open>
  The value of the \<open>runner\<close> attribute of the decider:
  \<open>self.runner_name[:-len("_"+self.tag)] if hasattr(self, "tag") and
  self.runner_name.endswith("_"+self.tag) else self.runner_name\<close>.
\<close>

definition decider_runner_attr :: "runner \<Rightarrow> exn + pyval" where
  "decider_runner_attr s =
     (case s ''tag'' of
        None \<Rightarrow>
          (case s ''runner_name'' of
             None \<Rightarrow> Inl (AttributeError ''runner_name'')
           | Some v \<Rightarrow> Inr v)
      | Some t \<Rightarrow>
          (case s ''runner_name'' of
             None \<Rightarrow> Inl (AttributeError ''runner_name'')
           | Some (PStr rn) \<Rightarrow>
               (case t of
                  PStr tg \<Rightarrow>
                    (if endswith rn (''_'' @ tg)
                     then Inr (PStr (take (length rn - length (''_'' @ tg)) rn))
                     else Inr (PStr rn))
                | _ \<Rightarrow> Inl (TypeError ''tag''))
           | Some _ \<Rightarrow> Inl (AttributeError ''endswith'')))"

text \<open>The body of the \<open>try\<close> of \<open>decide_and_prepare_event\<close>.\<close>

definition try_decide ::
  "env \<Rightarrow> decider option \<Rightarrow> runner \<Rightarrow> store \<Rightarrow> ref \<Rightarrow> store \<times> (exn + decided_event)" where
  "try_decide env instance slf h raw_event =
     (case DecidedEvent (str_dict env) h raw_event of
        (h1, Inl e) \<Rightarrow> (h1, Inl e)
      | (h1, Inr decided_event) \<Rightarrow>
          (case decider_runner_attr slf of
             Inl e \<Rightarrow> (h1, Inl e)
           | Inr rv \<Rightarrow>
               (case instance of
                  None \<Rightarrow> (h1, Inl (AttributeError ''runner''))
                | Some inst \<Rightarrow>
                    (case decide_and_prepare inst rv h1 decided_event of
                       (h2, ev, Some e) \<Rightarrow> (h2, Inl e)
                     | (h2, ev, None) \<Rightarrow> (h2, Inr ev)))))"

text \<open>
  \<open>decide_and_prepare_event\<close> returns the event, returns \<open>None\<close> after logging, or lets
  an exception through: the handler of its \<open>try\<close> reads \<open>instance.__module_file__\<close>, which
  fails when \<open>new_decider\<close> has returned \<open>None\<close>.
\<close>

definition decide_and_prepare_event ::
  "env \<Rightarrow> world \<Rightarrow> ref \<Rightarrow> world \<times> (exn + decided_event option)" where
  "decide_and_prepare_event env w raw_event =
     (case new_decider env w of
        (w1, instance) \<Rightarrow>
          (let w2 = w1\<lparr> heap := (heap w1)(raw_event := stamp_raw_event env (heap w1 raw_event)) \<rparr>
           in case try_decide env instance (self w2) (heap w2) raw_event of
                (h3, Inr decided_event) \<Rightarrow> (w2\<lparr> heap := h3 \<rparr>, Inr (Some decided_event))
              | (h3, Inl e) \<Rightarrow>
                  (case instance of
                     None \<Rightarrow> (w2\<lparr> heap := h3 \<rparr>, Inl (AttributeError ''__module_file__''))
                   | Some inst \<Rightarrow>
                       (logger CRITICAL
                          ''when deciding based on this {} with this {} there was an error <{}>''
                          [AStr (str_dict env (h3 raw_event)),
                           AStr (class_name inst @ ''@'' @ module_file inst),
                           AExn e]
                          (w2\<lparr> heap := h3 \<rparr>),
                        Inr None))))"

text \<open>
  The \<open>try\<close> of \<open>handle\<close> and its handler, up to the value of \<open>decided_event\<close> that the
  last statement tests. When \<open>decide_and_prepare_event\<close> has returned \<open>None\<close>, reading
  \<open>is_discarded\<close> raises; the variable is bound then, so nothing is logged.
\<close>

definition handle_try :: "env \<Rightarrow> world \<Rightarrow> ref \<Rightarrow> world \<times> decided_event option" where
  "handle_try env w raw_event =
     (case decide_and_prepare_event env w raw_event of
        (w1, Inl e) \<Rightarrow>
          (logger CRITICAL ''raw event {} caused error {}''
             [AStr (str_dict env (heap w1 raw_event)), AExn e] w1, None)
      | (w1, Inr None) \<Rightarrow> (w1, None)
      | (w1, Inr (Some decided_event)) \<Rightarrow>
          (if discarded decided_event then
             (if \<not> discarded_silently decided_event then
                (let ev = (if summary decided_event = None \<or> summary decided_event = Some []
                           then decided_event\<lparr> summary := Some (str_dict env (heap w1 raw_event)) \<rparr>
                           else decided_event)
                 in (logger INFO ''discarded: {}'' [summary_arg ev] w1, None))
              else (w1, None))
           else if \<not> is_complete decided_event then
             (logger CRITICAL
                ''a decided event {} must have the attributes payload and summary''
                [AStr ''DecidedEvent''] w1, None)
           else (w1, Some decided_event)))"

text \<open>\<open>overwrite_attributes\<close>: for every key of the payload, in order, an attribute that
  exists is set to the value of the payload.\<close>

fun overwrite_loop :: "string list \<Rightarrow> pydict \<Rightarrow> runner \<Rightarrow> runner" where
  "overwrite_loop [] pl s = s"
| "overwrite_loop (k # ks) pl s =
     overwrite_loop ks pl
       (if s k \<noteq> None
        then (case map_of pl k of Some v \<Rightarrow> s(k \<mapsto> v) | None \<Rightarrow> s)
        else s)"

definition overwrite_attributes :: "runner \<Rightarrow> pydict \<Rightarrow> runner" where
  "overwrite_attributes s pl = overwrite_loop (map fst pl) pl s"

text \<open>The local variables of \<open>run_decided\<close> after its \<open>try\<close>.\<close>

record attempt =
  stdout :: "string option"
  stderr :: "string option"
  exit_code :: int
  success :: bool
  decide_exception_msg :: "exn option"

definition failed :: "exn \<Rightarrow> attempt" where
  "failed e = \<lparr> stdout = None, stderr = None, exit_code = 0, success = False,
                decide_exception_msg = Some e \<rparr>"

definition run_try :: "env \<Rightarrow> world \<Rightarrow> decided_event option \<Rightarrow> world \<times> attempt" where
  "run_try env w decided_event =
     (case decided_event of
        None \<Rightarrow>
          (w, \<lparr> stdout = None, stderr = None, exit_code = 0, success = True,
                decide_exception_msg = None \<rparr>)
      | Some ev \<Rightarrow>
          (case run env (self w) (heap w) ev of
             (quiet, r) \<Rightarrow>
               (let w1 = w\<lparr> self := (if quiet then no_more_logging (self w) else self w),
                            calls := calls w @ [RunCall (self w)] \<rparr>
                in case r of
                     Inl e \<Rightarrow> (w1, failed e)
                   | Inr None \<Rightarrow> (w1, failed (Raised ''runner did not return a command''))
                   | Inr (Some command) \<Rightarrow>
                       (if command = [] then
                          (w1, failed (Raised ''runner did not return a command''))
                        else
                          (let w2 = logger DEBUG ''command is {command}'' [AStr command] w1;
                               w3 = w2\<lparr> calls := calls w2 @ [PopenCall command] \<rparr>
                           in case popen env command of
                                Inl e \<Rightarrow> (w3, failed e)
                              | Inr (out, err, code) \<Rightarrow>
                                  (w3, \<lparr> stdout = Some out, stderr = Some err,
                                         exit_code = code,
                                         success = (if code = 0 then True else False),
                                         decide_exception_msg = None \<rparr>))))))"

text \<open>Reading \<open>self.baseclass_logs_summary\<close> and \<open>decided_event.summary\<close>.\<close>

definition baseclass_logs_summary :: "runner \<Rightarrow> exn + bool" where
  "baseclass_logs_summary s =
     (case s ''baseclass_logs_summary'' of
        None \<Rightarrow> Inl (AttributeError ''baseclass_logs_summary'')
      | Some v \<Rightarrow> Inr (truthy v))"

definition summary_of :: "decided_event option \<Rightarrow> exn + logarg" where
  "summary_of decided_event =
     (case decided_event of
        None \<Rightarrow> Inl (AttributeError ''summary'')
      | Some ev \<Rightarrow> Inr (summary_arg ev))"

text \<open>\<open>decide_exception_msg\<close> where the test \<open>elif decide_exception_msg:\<close> succeeds.\<close>

definition nonempty_msg :: "exn option \<Rightarrow> exn option" where
  "nonempty_msg m =
     (case m of None \<Rightarrow> None | Some e \<Rightarrow> if str_exn_nonempty e then Some e else None)"

definition run_decided :: "env \<Rightarrow> world \<Rightarrow> decided_event option \<Rightarrow> world \<times> (exn + bool)" where
  "run_decided env w decided_event =
     (case run_try env w decided_event of
        (w1, a) \<Rightarrow>
          (if success a then
             (case baseclass_logs_summary (self w1) of
                Inl e \<Rightarrow> (w1, Inl e)
              | Inr False \<Rightarrow> (w1, Inr True)
              | Inr True \<Rightarrow>
                  (case summary_of decided_event of
                     Inl e \<Rightarrow> (w1, Inl e)
                   | Inr s \<Rightarrow>
                       (logger DEBUG ''stdout {}, stderr {}''
                          [or_empty (stdout a), or_empty (stderr a)]
                          (logger INFO ''{}'' [s] w1),
                        Inr True)))
           else if stderr a \<noteq> None \<and> stderr a \<noteq> Some [] then
             (case summary_of decided_event of
                Inl e \<Rightarrow> (w1, Inl e)
              | Inr s \<Rightarrow>
                  (logger CRITICAL ''run failed: stdout {}, stderr {}, event {}''
                     [or_empty (stdout a), or_empty (stderr a), s] w1,
                   Inr False))
           else
             (case nonempty_msg (decide_exception_msg a) of
                Some e \<Rightarrow>
                  (case summary_of decided_event of
                     Inl e' \<Rightarrow> (w1, Inl e')
                   | Inr s \<Rightarrow>
                       (logger CRITICAL ''run failed: exception <{}>, event was <{}>''
                          [AExn e, s] w1,
                        Inr False))
              | None \<Rightarrow>
                  (case baseclass_logs_summary (self w1) of
                     Inl e \<Rightarrow> (w1, Inl e)
                   | Inr False \<Rightarrow> (w1, Inr False)
                   | Inr True \<Rightarrow>
                       (case summary_of decided_event of
                          Inl e \<Rightarrow> (w1, Inl e)
                        | Inr s \<Rightarrow>
                            (logger CRITICAL
                               ''run failed: stdout {}, stderr {}, exitcode {}, event {}''
                               [or_empty (stdout a), or_empty (stderr a), AInt (exit_code a), s]
                               w1,
                             Inr False))))))"

text \<open>
  \<open>handle\<close> has no \<open>return\<close> statement: what it gives back is \<open>None\<close>, unless an
  exception leaves it. The last statement runs outside the \<open>try\<close>.
\<close>

definition handle :: "env \<Rightarrow> world \<Rightarrow> ref \<Rightarrow> world \<times> (exn + pyval)" where
  "handle env w raw_event =
     (case handle_try env w raw_event of
        (w1, None) \<Rightarrow> (w1, Inr PNone)
      | (w1, Some decided_event) \<Rightarrow>
          (case payload decided_event of
             None \<Rightarrow> (w1, Inl (TypeError ''payload''))
           | Some p \<Rightarrow>
               (case run_decided env (w1\<lparr> self := overwrite_attributes (self w1) p \<rparr>)
                       (Some decided_event) of
                  (w2, Inl e) \<Rightarrow> (w2, Inl e)
                | (w2, Inr ok) \<Rightarrow> (w2, Inr PNone))))"


section \<open>The timeout decorator\<close>

text \<open>
  The part of the process state that \<open>signal.signal\<close> and \<open>signal.alarm\<close> read and write:
  the handler installed for \<open>SIGALRM\<close> and the seconds until a pending alarm is due
  (\<open>0\<close>: no alarm is pending). \<open>TimeoutHandler m\<close> is the closure \<open>handler\<close> of the wrapper,
  which raises \<open>RunnerTimeoutError(m)\<close>; \<open>Installed n\<close> is some other callable.
\<close>

datatype handler = SIG_DFL | SIG_IGN | Installed nat | TimeoutHandler string

record signals =
  sigalrm :: handler
  alarm :: nat

text \<open>Both calls return what they replace.\<close>

definition signal_signal :: "handler \<Rightarrow> signals \<Rightarrow> handler \<times> signals" where
  "signal_signal h s = (sigalrm s, s\<lparr> sigalrm := h \<rparr>)"

definition signal_alarm :: "nat \<Rightarrow> signals \<Rightarrow> nat \<times> signals" where
  "signal_alarm n s = (alarm s, s\<lparr> alarm := n \<rparr>)"

text \<open>
  The wrapped function, in whole seconds: the time it needs when left alone and what it
  then returns or raises. It neither touches the signal state nor catches the exception
  of the handler. Called while an alarm is pending that falls due before it is done, with
  the wrapper's handler installed, it is cut off by the exception of the handler;
  otherwise it completes and a pending alarm has that much less to go. What other
  handlers do when their alarm fires is not modelled.
\<close>

record 'a func =
  duration :: nat
  outcome :: "exn + 'a"

definition call_func :: "'a func \<Rightarrow> signals \<Rightarrow> (exn + 'a) \<times> signals" where
  "call_func f s =
     (case sigalrm s of
        TimeoutHandler m \<Rightarrow>
          (if 0 < alarm s \<and> alarm s \<le> duration f
           then (Inl (RunnerTimeoutError m), s\<lparr> alarm := 0 \<rparr>)
           else (outcome f, s\<lparr> alarm := alarm s - duration f \<rparr>))
      | _ \<Rightarrow> (outcome f, s\<lparr> alarm := alarm s - duration f \<rparr>))"

text \<open>
  \<open>timeout(seconds, error_message)(func)(...)\<close>: the body of \<open>wrapper\<close>, the two calls
  of its \<open>finally\<close> running whether \<open>func\<close> returned or raised.
\<close>

definition timeout :: "nat \<Rightarrow> string \<Rightarrow> 'a func \<Rightarrow> signals \<Rightarrow> (exn + 'a) \<times> signals" where
  "timeout seconds error_message f s =
     (case signal_signal (TimeoutHandler error_message) s of
        (original_handler, s1) \<Rightarrow>
          (case signal_alarm seconds s1 of
             (_, s2) \<Rightarrow>
               (case call_func f s2 of
                  (result, s3) \<Rightarrow>
                    (case signal_signal original_handler s3 of
                       (_, s4) \<Rightarrow>
                         (case signal_alarm 0 s4 of
                            (_, s5) \<Rightarrow> (result, s5))))))"

definition alarm_pending :: "signals \<Rightarrow> bool" where
  "alarm_pending s = (0 < alarm s)"

section \<open>Notions used in the statements\<close>

text \<open>What the claims call the integer value of a digit string, applied to one value.\<close>

definition coerce :: "pyval \<Rightarrow> pyval" where
  "coerce v = (case v of PStr s \<Rightarrow> if isdigit s then PInt (decimal_value s) else v | _ \<Rightarrow> v)"

text \<open>The digit string under a key, if there is one, and whether \<open>int\<close> accepts it.\<close>

definition needs_int :: "pydict \<Rightarrow> string \<Rightarrow> string option" where
  "needs_int d k =
     (case map_of d k of Some (PStr s) \<Rightarrow> if isdigit s then Some s else None | _ \<Rightarrow> None)"

definition convertible_at :: "pydict \<Rightarrow> string \<Rightarrow> bool" where
  "convertible_at d k =
     (case needs_int d k of Some s \<Rightarrow> list_all is_decimal_char s | None \<Rightarrow> True)"

definition convertible :: "pydict \<Rightarrow> bool" where
  "convertible d = list_all (convertible_at d) (map fst d)"

text \<open>The records a call has added to the log, and those of one level.\<close>

definition new_logs :: "world \<Rightarrow> world \<Rightarrow> log_record list" where
  "new_logs w w' = drop (length (logs w)) (logs w')"

definition at_level :: "level \<Rightarrow> log_record list \<Rightarrow> log_record list" where
  "at_level l rs = filter (\<lambda>r. fst r = l) rs"

definition policy_error :: string where
  "policy_error = ''a decided event {} must have the attributes payload and summary''"

text \<open>Whether \<open>self.baseclass_logs_summary\<close> is true after \<open>run\<close> has been called.\<close>

definition logging_after_run :: "env \<Rightarrow> world \<Rightarrow> decided_event \<Rightarrow> bool" where
  "logging_after_run env w ev =
     (\<not> fst (run env (self w) (heap w) ev) \<and>
      (case self w ''baseclass_logs_summary'' of Some v \<Rightarrow> truthy v | None \<Rightarrow> False))"

section \<open>An example installation\<close>

definition demo_raw :: pydict where
  "demo_raw = [(''service_description'', PStr ''CPU''), (''state'', PStr ''2''),
               (''output'', PStr ''CRIT'')]"

definition demo_str_dict :: "pydict \<Rightarrow> string" where
  "demo_str_dict d = concat (map (\<lambda>kv. fst kv @ '';'') d)"

definition paging_decider :: decider where
  "paging_decider =
     \<lparr> class_name = ''PagingDecider'', module_file = ''paging/decider.py'',
       decide_and_prepare = (\<lambda>rv h ev.
         (h, ev\<lparr> payload := Some [(''contact'', PStr ''oncall''), (''colour'', PStr ''red'')],
                 summary := Some ''CPU CRIT -> paging oncall'' \<rparr>, None)) \<rparr>"

definition raising_decider :: decider where
  "raising_decider =
     \<lparr> class_name = ''RaisingDecider'', module_file = ''raising/decider.py'',
       decide_and_prepare = (\<lambda>rv h ev. (h, ev, Some (Raised ''no rule''))) \<rparr>"

definition discarding_decider :: decider where
  "discarding_decider =
     \<lparr> class_name = ''DiscardingDecider'', module_file = ''discarding/decider.py'',
       decide_and_prepare = (\<lambda>rv h ev. (h, discard False ev, None)) \<rparr>"

definition idle_decider :: decider where
  "idle_decider =
     \<lparr> class_name = ''IdleDecider'', module_file = ''idle/decider.py'',
       decide_and_prepare = (\<lambda>rv h ev. (h, ev, None)) \<rparr>"

definition demo_env :: env where
  "demo_env =
     \<lparr> str_dict = demo_str_dict,
       import_decider = (\<lambda>n.
         if n = ''paging'' then Imported paging_decider
         else if n = ''raising'' then Imported raising_decider
         else if n = ''discarding'' then Imported discarding_decider
         else if n = ''idle'' then Imported idle_decider
         else ImportFailed),
       environ_OMD_SITE = Some ''prod'',
       gethostname = ''mon1'',
       getfqdn = ''mon1.example.org'',
       time_time = (\<lambda>n. 1700000000),
       run = (\<lambda>s h ev. (False, Inr (Some ''notify.sh oncall''))),
       popen = (\<lambda>c. Inr ([], [], 0)) \<rparr>"

definition failing_env :: env where
  "failing_env = demo_env\<lparr> popen := (\<lambda>c. Inr (''out'', ''err'', 2)) \<rparr>"

definition quiet_env :: env where
  "quiet_env =
     demo_env\<lparr> run := (\<lambda>s h ev. (True, Inr (Some ''notify.sh oncall''))),
               popen := (\<lambda>c. Inr ([], [], 2)) \<rparr>"

definition demo_world :: "string \<Rightarrow> world" where
  "demo_world d =
     \<lparr> heap = (\<lambda>r. demo_raw),
       self = (EventhandlerRunner [(''contact'', PStr ''nobody'')])
                (''runner_name'' \<mapsto> PStr ''notify'', ''decider_name'' \<mapsto> PStr d),
       logs = [], calls = [] \<rparr>"

definition demo_event :: decided_event where
  "demo_event =
     \<lparr> eventopts = 0, is_heartbeat = None,
       payload = Some [(''contact'', PStr ''oncall'')],
       summary = Some ''CPU CRIT -> paging oncall'', runneropts = [],
       discarded = False, discarded_silently = True \<rparr>"

definition busy_signals :: signals where
  "busy_signals = \<lparr> sigalrm = Installed 0, alarm = 30 \<rparr>"

definition quick_func :: "unit func" where
  "quick_func = \<lparr> duration = 1, outcome = Inr () \<rparr>"

definition slow_func :: "unit func" where
  "slow_func = \<lparr> duration = 10, outcome = Inr () \<rparr>"

text \<open>
  C4 in the words of the specification: among the new records there is exactly one of
  level \<open>CRITICAL\<close>, and it carries the exit code, the stdout, the stderr and the summary.
\<close>

definition reports_exit_code ::
  "log_record list \<Rightarrow> int \<Rightarrow> string \<Rightarrow> string \<Rightarrow> decided_event \<Rightarrow> bool" where
  "reports_exit_code new code out err ev =
     (case at_level CRITICAL new of
        [(l, fmt, args)] \<Rightarrow>
          AInt code \<in> set args \<and> or_empty (Some out) \<in> set args \<and>
          or_empty (Some err) \<in> set args \<and> summary_arg ev \<in> set args
      | _ \<Rightarrow> False)"

section \<open>Evaluation of the examples\<close>

lemmas string_defs = isdigit_def is_digit_char_def is_decimal_char_def py_int_def decimal_value_def

lemmas demo_defs = demo_env_def failing_env_def demo_world_def demo_raw_def demo_str_dict_def
  demo_event_def paging_decider_def raising_decider_def discarding_decider_def idle_decider_def
  EventhandlerRunner_def

section \<open>DecidedEvent: the constructor\<close>

text \<open>One round of the loop either skips the key, replaces its value, or raises.\<close>

lemma coerce_loop_skip:
  "needs_int d k = None \<Longrightarrow> coerce_loop (k # ks) d = coerce_loop ks d"
  by (simp add: needs_int_def split: option.splits pyval.splits if_splits)

lemma coerce_loop_int:
  "needs_int d k = Some s \<Longrightarrow> list_all is_decimal_char s \<Longrightarrow>
   coerce_loop (k # ks) d = coerce_loop ks (AList.update k (PInt (decimal_value s)) d)"
  by (auto simp: needs_int_def py_int_def isdigit_def split: option.splits pyval.splits if_splits)

lemma coerce_loop_raise:
  "needs_int d k = Some s \<Longrightarrow> \<not> list_all is_decimal_char s \<Longrightarrow>
   coerce_loop (k # ks) d = (d, Some (ValueError s))"
  by (auto simp: needs_int_def py_int_def isdigit_def split: option.splits pyval.splits if_splits)

lemma needs_int_lookup: "needs_int d k = Some s \<Longrightarrow> map_of d k = Some (PStr s) \<and> isdigit s"
  by (auto simp: needs_int_def split: option.splits pyval.splits if_splits)

lemma update_present_keys:
  "map_of d k = Some v \<Longrightarrow> map fst (AList.update k w d) = map fst d"
  by (induction d) (auto split: if_splits)


lemma coerce_no_int: "needs_int d k = None \<Longrightarrow> map_option coerce (map_of d k) = map_of d k"
  by (cases "map_of d k") (auto simp: needs_int_def coerce_def split: pyval.splits if_splits)

text \<open>The loop keeps the keys and their order.\<close>

lemma coerce_loop_keys: "map fst (fst (coerce_loop ks d)) = map fst d"
proof (induction ks arbitrary: d)
  case Nil
  show ?case by simp
next
  case (Cons k ks)
  show ?case
  proof (cases "needs_int d k")
    case None
    then have eq: "coerce_loop (k # ks) d = coerce_loop ks d" by (rule coerce_loop_skip)
    show ?thesis unfolding eq by (rule Cons.IH)
  next
    case (Some s)
    show ?thesis
    proof (cases "list_all is_decimal_char s")
      case True
      let ?d = "AList.update k (PInt (decimal_value s)) d"
      from Some True have eq: "coerce_loop (k # ks) d = coerce_loop ks ?d"
        by (rule coerce_loop_int)
      from Some have "map_of d k = Some (PStr s)" by (simp add: needs_int_lookup)
      then have "map fst ?d = map fst d" by (rule update_present_keys)
      with Cons.IH [of ?d] show ?thesis unfolding eq by simp
    next
      case False
      with Some have eq: "coerce_loop (k # ks) d = (d, Some (ValueError s))"
        by (rule coerce_loop_raise)
      show ?thesis unfolding eq by simp
    qed
  qed
qed

text \<open>When the loop runs through, it has coerced the value under each key it was given.\<close>

lemma coerce_loop_lookup:
  "snd (coerce_loop ks d) = None \<Longrightarrow>
   map_of (fst (coerce_loop ks d)) k' =
     (if k' \<in> set ks then map_option coerce (map_of d k') else map_of d k')"
proof (induction ks arbitrary: d)
  case Nil
  show ?case by simp
next
  case (Cons k ks)
  show ?case
  proof (cases "needs_int d k")
    case None
    then have eq: "coerce_loop (k # ks) d = coerce_loop ks d" by (rule coerce_loop_skip)
    from Cons.prems have "snd (coerce_loop ks d) = None" unfolding eq .
    from Cons.IH [OF this] None show ?thesis unfolding eq
      by (auto simp: coerce_no_int)
  next
    case (Some s)
    show ?thesis
    proof (cases "list_all is_decimal_char s")
      case True
      let ?d = "AList.update k (PInt (decimal_value s)) d"
      from Some True have eq: "coerce_loop (k # ks) d = coerce_loop ks ?d"
        by (rule coerce_loop_int)
      from Cons.prems have "snd (coerce_loop ks ?d) = None" unfolding eq .
      from Cons.IH [OF this] have
        "map_of (fst (coerce_loop ks ?d)) k' =
           (if k' \<in> set ks then map_option coerce (map_of ?d k') else map_of ?d k')" .
      moreover have "map_of ?d k' = (if k' = k then Some (PInt (decimal_value s)) else map_of d k')"
        by (simp add: update_conv')
      moreover from Some have "map_option coerce (map_of d k) = Some (PInt (decimal_value s))"
        by (auto simp: coerce_def dest: needs_int_lookup)
      moreover have "coerce (PInt (decimal_value s)) = PInt (decimal_value s)"
        by (simp add: coerce_def)
      ultimately show ?thesis unfolding eq by auto
    next
      case False
      with Some have eq: "coerce_loop (k # ks) d = (d, Some (ValueError s))"
        by (rule coerce_loop_raise)
      from Cons.prems show ?thesis unfolding eq by simp
    qed
  qed
qed


lemma DecidedEvent_cases:
  "DecidedEvent f h r =
     (h(r := fst (coerce_loop (map fst (h r)) (h r))),
      case snd (coerce_loop (map fst (h r)) (h r)) of
        Some e \<Rightarrow> Inl e
      | None \<Rightarrow>
          Inr \<lparr> eventopts = r, is_heartbeat = None, payload = None,
                summary = Some (f (fst (coerce_loop (map fst (h r)) (h r)))), runneropts = [],
                discarded = False, discarded_silently = True \<rparr>)"
  by (simp add: DecidedEvent_def split: prod.splits option.splits)

lemma DecidedEvent_lookup:
  assumes "DecidedEvent f h r = (h', Inr ev)"
  shows "eventopts ev = r"
    and "map fst (h' r) = map fst (h r)"
    and "map_of (h' r) k = map_option coerce (map_of (h r) k)"
    and "r' \<noteq> r \<Longrightarrow> h' r' = h r'"
proof -
  let ?res = "coerce_loop (map fst (h r)) (h r)"
  from assms have ok: "snd ?res = None" and h': "h' = h(r := fst ?res)"
    and ev: "eventopts ev = r"
    by (auto simp: DecidedEvent_cases split: option.splits)
  show "eventopts ev = r" by (rule ev)
  show "map fst (h' r) = map fst (h r)" by (simp add: h' coerce_loop_keys)
  have "map_of (h r) k = None" if "k \<notin> set (map fst (h r))"
    using that by (simp add: map_of_eq_None_iff)
  then show "map_of (h' r) k = map_option coerce (map_of (h r) k)"
    using coerce_loop_lookup [OF ok, of k] by (auto simp: h')
  show "h' r' = h r'" if "r' \<noteq> r" using that by (simp add: h')
qed


lemma convertible_demo_raw: "convertible demo_raw"
  by (simp add: convertible_def convertible_at_def needs_int_def demo_raw_def isdigit_def
      is_digit_char_def is_decimal_char_def)

lemma coerce_demo:
  "coerce (PStr ''2'') = PInt 2" "coerce (PStr ''CRIT'') = PStr ''CRIT''"
  by (simp_all add: coerce_def isdigit_def is_digit_char_def is_decimal_char_def decimal_value_def)

lemma DecidedEvent_demo:
  "DecidedEvent demo_str_dict (\<lambda>r. demo_raw) 0 =
     (fst (DecidedEvent demo_str_dict (\<lambda>r. demo_raw) 0),
      Inr \<lparr> eventopts = 0, is_heartbeat = None, payload = None,
            summary = Some ''service_description;state;output;'', runneropts = [],
            discarded = False, discarded_silently = True \<rparr>)"
  by (simp add: DecidedEvent_def demo_raw_def demo_str_dict_def isdigit_def is_digit_char_def
      is_decimal_char_def py_int_def decimal_value_def)



text \<open>
  C9, as the specification states it: the construction leaves the caller's mapping as it
  was and coerces a copy. The raw event \<open>{"service_description": "CPU", "state": "2",
  "output": "CRIT"}\<close>, stored at address 0, is a different mapping after the construction.
\<close>

theorem DecidedEvent_copy_counterexample:
  "fst (DecidedEvent demo_str_dict (\<lambda>r. demo_raw) 0) 0 \<noteq> demo_raw"
  by (simp add: DecidedEvent_def demo_raw_def isdigit_def is_digit_char_def is_decimal_char_def
      py_int_def decimal_value_def)

text \<open>
  C9, amended: constructing a DecidedEvent from a raw event mapping does not copy it.
  \<open>eventopts\<close> is the caller's mapping itself, the coercion of digit strings to integers is
  applied to that mapping in place, so that after the construction the caller's mapping
  holds the coerced values; no other mapping of the store is written.
\<close>

theorem DecidedEvent_aliases_raw_event:
  "DecidedEvent f h r = (h', Inr ev) \<Longrightarrow>
     eventopts ev = r \<and>
     map fst (h' r) = map fst (h r) \<and>
     (\<forall>k. map_of (h' r) k = map_option coerce (map_of (h r) k)) \<and>
     (\<forall>r'. r' \<noteq> r \<longrightarrow> h' r' = h r')"
  using DecidedEvent_lookup [of f h r h' ev] by blast

theorem DecidedEvent_aliases_raw_event_witness:
  "map_of (fst (DecidedEvent demo_str_dict (\<lambda>r. demo_raw) 0) 0) ''state'' = Some (PInt 2) \<and>
   fst (DecidedEvent demo_str_dict (\<lambda>r. demo_raw) 0) 1 = demo_raw"
proof -
  let ?h = "fst (DecidedEvent demo_str_dict (\<lambda>r. demo_raw) 0)"
  note t = DecidedEvent_aliases_raw_event [OF DecidedEvent_demo]
  from t have "map_of (?h 0) ''state'' = map_option coerce (map_of demo_raw ''state'')"
    by blast
  then have "map_of (?h 0) ''state'' = Some (PInt 2)"
    by (simp add: demo_raw_def coerce_demo)
  moreover from t have "?h 1 = demo_raw" by simp
  ultimately show ?thesis by simp
qed

section \<open>DecidedEvent: discard\<close>

text \<open>
  C7, as the specification states it: \<open>discard(silently)\<close> sets \<open>is_discarded_silently\<close> to
  the negation of \<open>silently\<close>. It does not: \<open>discard(True)\<close> leaves the flag true.
\<close>

theorem discard_negation_counterexample:
  "discarded_silently (discard True demo_event) \<noteq> (\<not> True)"
  by (simp add: discard_def)

text \<open>
  C7, amended: for every boolean \<open>silently\<close>, \<open>discard(silently)\<close> sets \<open>is_discarded\<close> to
  true and \<open>is_discarded_silently\<close> to \<open>silently\<close> itself, so that \<open>discard(False)\<close> is the
  discard that still logs the summary and \<open>discard(True)\<close> the silent one. Nothing else of
  the event changes.
\<close>

theorem discard_sets_flags:
  "discarded (discard silently ev) \<and>
   discarded_silently (discard silently ev) = silently \<and>
   discard silently ev = ev\<lparr> discarded := True, discarded_silently := silently \<rparr>"
  by (simp add: discard_def)

section \<open>The decision phase of handle\<close>


lemma new_decider_found:
  "snd (new_decider env w) = Some inst \<Longrightarrow> fst (new_decider env w) = w"
  by (auto simp: new_decider_def logger_def split: option.splits pyval.splits import_result.splits)

text \<open>
  What \<open>decide_and_prepare_event\<close> does once a decider instance exists, the event has been
  constructed and the decider has been called.
\<close>

lemma decide_and_prepare_event_reached:
  assumes "snd (new_decider env w) = Some inst"
    and "DecidedEvent (str_dict env) ((heap w)(r := stamp_raw_event env (heap w r))) r = (h1, Inr ev0)"
    and "decider_runner_attr (self w) = Inr rv"
    and "decide_and_prepare inst rv h1 ev0 = (h2, ev, x)"
  shows "decide_and_prepare_event env w r =
           (case x of
              None \<Rightarrow> (w\<lparr> heap := h2 \<rparr>, Inr (Some ev))
            | Some e \<Rightarrow>
                (logger CRITICAL
                   ''when deciding based on this {} with this {} there was an error <{}>''
                   [AStr (str_dict env (h2 r)), AStr (class_name inst @ ''@'' @ module_file inst),
                    AExn e] (w\<lparr> heap := h2 \<rparr>), Inr None))"
proof -
  from assms(1) have nd: "new_decider env w = (w, Some inst)"
    by (metis new_decider_found prod.collapse)
  show ?thesis
    using assms(2-4)
    by (simp add: decide_and_prepare_event_def nd try_decide_def split: option.splits)
qed




lemma demo_new_decider:
  "snd (new_decider demo_env (demo_world ''raising'')) = Some raising_decider"
  "snd (new_decider demo_env (demo_world ''discarding'')) = Some discarding_decider"
  "snd (new_decider demo_env (demo_world ''idle'')) = Some idle_decider"
  "snd (new_decider demo_env (demo_world ''paging'')) = Some paging_decider"
  by (simp_all add: new_decider_def demo_env_def demo_world_def)

lemma demo_runner_attr: "decider_runner_attr (self (demo_world d)) = Inr (PStr ''notify'')"
  by (simp add: decider_runner_attr_def demo_world_def EventhandlerRunner_def)

lemma demo_present: "self (demo_world d) ''baseclass_logs_summary'' \<noteq> None"
  by (simp add: demo_world_def EventhandlerRunner_def)

lemma demo_DecidedEvent:
  "DecidedEvent (str_dict demo_env)
     ((heap (demo_world d))(0 := stamp_raw_event demo_env (heap (demo_world d) 0))) 0 =
   (fst (DecidedEvent (str_dict demo_env)
     ((heap (demo_world d))(0 := stamp_raw_event demo_env (heap (demo_world d) 0))) 0),
    Inr \<lparr> eventopts = 0, is_heartbeat = None, payload = None,
          summary = Some ''service_description;state;output;omd_site;omd_originating_host;omd_originating_fqdn;omd_originating_timestamp;'',
          runneropts = [], discarded = False, discarded_silently = True \<rparr>)"
  by (simp add: DecidedEvent_def stamp_raw_event_def demo_defs string_defs)

text \<open>
  C1: when the decider has been called and leaves the event discarded (whether it then
  returns or raises, and whether or not the event is complete), \<open>handle\<close> calls neither
  \<open>run\<close> nor the process executor, logs no record with the message about the missing
  payload and summary, and returns \<open>None\<close>. The premises say that the call of the decider is
  reached: \<open>new_decider\<close> has found an instance, the event has been constructed from the
  stamped raw event, and the \<open>runner\<close> attribute has been computed.
\<close>

theorem handle_discarded_never_runs:
  assumes "snd (new_decider env w) = Some inst"
    and "DecidedEvent (str_dict env) ((heap w)(r := stamp_raw_event env (heap w r))) r = (h1, Inr ev0)"
    and "decider_runner_attr (self w) = Inr rv"
    and "decide_and_prepare inst rv h1 ev0 = (h2, ev, x)"
    and "discarded ev"
  shows "calls (fst (handle env w r)) = calls w \<and>
         (\<forall>args. (CRITICAL, policy_error, args) \<notin> set (new_logs w (fst (handle env w r)))) \<and>
         snd (handle env w r) = Inr PNone"
  using assms(5)
  by (cases x)
     (simp_all add: handle_def handle_try_def
        decide_and_prepare_event_reached [OF assms(1-4)] logger_def new_logs_def policy_error_def)

theorem handle_discarded_never_runs_witness:
  "discarded (discard False
     \<lparr> eventopts = 0, is_heartbeat = None, payload = None,
       summary = Some ''service_description;state;output;omd_site;omd_originating_host;omd_originating_fqdn;omd_originating_timestamp;'',
       runneropts = [], discarded = False, discarded_silently = True \<rparr>) \<and>
   calls (fst (handle demo_env (demo_world ''discarding'') 0)) = [] \<and>
   snd (handle demo_env (demo_world ''discarding'') 0) = Inr PNone"
proof -
  have d: "decide_and_prepare discarding_decider (PStr ''notify'') h ev = (h, discard False ev, None)"
    for h ev by (simp add: discarding_decider_def)
  have c: "calls (demo_world ''discarding'') = []" by (simp add: demo_world_def)
  from handle_discarded_never_runs [OF demo_new_decider(2) demo_DecidedEvent demo_runner_attr d]
  show ?thesis by (simp add: discard_def c)
qed

text \<open>
  C2: when the decider raises, or returns leaving an event that is neither discarded nor
  complete, \<open>handle\<close> calls neither \<open>run\<close> nor the process executor, adds exactly one
  record to the log, of level \<open>CRITICAL\<close> (for a raising decider the one with the raw
  event, the decider and the error text), and returns \<open>None\<close> without an exception.
\<close>

theorem handle_decider_error_dropped:
  assumes "snd (new_decider env w) = Some inst"
    and "DecidedEvent (str_dict env) ((heap w)(r := stamp_raw_event env (heap w r))) r = (h1, Inr ev0)"
    and "decider_runner_attr (self w) = Inr rv"
    and "decide_and_prepare inst rv h1 ev0 = (h2, ev, x)"
    and "x \<noteq> None \<or> (\<not> discarded ev \<and> \<not> is_complete ev)"
  shows "calls (fst (handle env w r)) = calls w \<and>
         logs (fst (handle env w r)) =
           logs w @
           [case x of
              Some e \<Rightarrow>
                (CRITICAL,
                 ''when deciding based on this {} with this {} there was an error <{}>'',
                 [AStr (str_dict env (h2 r)), AStr (class_name inst @ ''@'' @ module_file inst),
                  AExn e])
            | None \<Rightarrow>
                (CRITICAL, ''a decided event {} must have the attributes payload and summary'',
                 [AStr ''DecidedEvent''])] \<and>
         snd (handle env w r) = Inr PNone"
  using assms(5)
  by (cases x)
     (simp_all add: handle_def handle_try_def
        decide_and_prepare_event_reached [OF assms(1-4)] logger_def)

theorem handle_decider_error_dropped_witness:
  "at_level CRITICAL (logs (fst (handle demo_env (demo_world ''raising'') 0))) =
     [(CRITICAL, ''when deciding based on this {} with this {} there was an error <{}>'',
       [AStr ''service_description;state;output;omd_site;omd_originating_host;omd_originating_fqdn;omd_originating_timestamp;'',
        AStr ''RaisingDecider@raising/decider.py'', AExn (Raised ''no rule'')])] \<and>
   calls (fst (handle demo_env (demo_world ''raising'') 0)) = [] \<and>
   snd (handle demo_env (demo_world ''raising'') 0) = Inr PNone \<and>
   logs (fst (handle demo_env (demo_world ''idle'') 0)) =
     [(CRITICAL, ''a decided event {} must have the attributes payload and summary'',
       [AStr ''DecidedEvent''])] \<and>
   calls (fst (handle demo_env (demo_world ''idle'') 0)) = [] \<and>
   snd (handle demo_env (demo_world ''idle'') 0) = Inr PNone"
proof -
  let ?h = "\<lambda>d. fst (DecidedEvent (str_dict demo_env)
     ((heap (demo_world d))(0 := stamp_raw_event demo_env (heap (demo_world d) 0))) 0)"
  have r: "decide_and_prepare raising_decider (PStr ''notify'') h ev = (h, ev, Some (Raised ''no rule''))"
    for h ev by (simp add: raising_decider_def)
  have i: "decide_and_prepare idle_decider (PStr ''notify'') h ev = (h, ev, None)"
    for h ev by (simp add: idle_decider_def)
  have c: "calls (demo_world d) = []" "logs (demo_world d) = []" for d
    by (simp_all add: demo_world_def)
  have s: "str_dict demo_env (?h ''raising'' 0) =
      ''service_description;state;output;omd_site;omd_originating_host;omd_originating_fqdn;omd_originating_timestamp;''"
    by (simp add: DecidedEvent_def stamp_raw_event_def demo_defs string_defs)
  from handle_decider_error_dropped
    [OF demo_new_decider(1) demo_DecidedEvent demo_runner_attr r]
  have "calls (fst (handle demo_env (demo_world ''raising'') 0)) = [] \<and>
    logs (fst (handle demo_env (demo_world ''raising'') 0)) =
     [(CRITICAL, ''when deciding based on this {} with this {} there was an error <{}>'',
       [AStr ''service_description;state;output;omd_site;omd_originating_host;omd_originating_fqdn;omd_originating_timestamp;'',
        AStr ''RaisingDecider@raising/decider.py'', AExn (Raised ''no rule'')])] \<and>
    snd (handle demo_env (demo_world ''raising'') 0) = Inr PNone"
    by (simp add: c s raising_decider_def)
  moreover
  from handle_decider_error_dropped
    [OF demo_new_decider(3) demo_DecidedEvent demo_runner_attr i]
  have "calls (fst (handle demo_env (demo_world ''idle'') 0)) = [] \<and>
    logs (fst (handle demo_env (demo_world ''idle'') 0)) =
     [(CRITICAL, ''a decided event {} must have the attributes payload and summary'',
       [AStr ''DecidedEvent''])] \<and>
    snd (handle demo_env (demo_world ''idle'') 0) = Inr PNone"
    by (simp add: c is_complete_def)
  ultimately show ?thesis by (simp add: at_level_def)
qed

section \<open>The overlay of the payload\<close>









section \<open>run_decided\<close>

lemma run_try_logging:
  "baseclass_logs_summary (self (fst (run_try env w (Some ev)))) =
     (if self w ''baseclass_logs_summary'' = None \<and> \<not> fst (run env (self w) (heap w) ev)
      then Inl (AttributeError ''baseclass_logs_summary'')
      else Inr (logging_after_run env w ev))"
  by (auto simp: run_try_def Let_def logger_def failed_def baseclass_logs_summary_def
      no_more_logging_def logging_after_run_def split: prod.splits sum.splits option.splits)

lemma run_try_logs:
  "at_level INFO (new_logs w (fst (run_try env w d))) = []"
  "at_level CRITICAL (new_logs w (fst (run_try env w d))) = []"
  by (auto simp: run_try_def Let_def logger_def failed_def new_logs_def at_level_def
      split: prod.splits sum.splits option.splits)

lemma run_try_logs_prefix:
  "\<exists>ls. logs (fst (run_try env w d)) = logs w @ ls"
  by (auto simp: run_try_def Let_def logger_def failed_def
      split: prod.splits sum.splits option.splits)


lemma run_try_executed:
  assumes "snd (run env (self w) (heap w) ev) = Inr (Some c)" "c \<noteq> []"
    "popen env c = Inr (out, err, code)"
  shows "snd (run_try env w (Some ev)) =
           \<lparr> stdout = Some out, stderr = Some err, exit_code = code,
             success = (code = 0), decide_exception_msg = None \<rparr>"
  using assms
  by (auto simp: run_try_def Let_def logger_def failed_def
      split: prod.splits sum.splits option.splits)

text \<open>\<open>run_decided\<close> on a Runner that has its summary flag: no exception leaves it.\<close>

lemma run_decided_split:
  fixes env :: env and w :: world and ev :: decided_event
  assumes "self w ''baseclass_logs_summary'' \<noteq> None"
  defines "w1 \<equiv> fst (run_try env w (Some ev))" and "a \<equiv> snd (run_try env w (Some ev))"
  shows "run_decided env w (Some ev) =
    (if success a then
       (if logging_after_run env w ev
        then (logger DEBUG ''stdout {}, stderr {}'' [or_empty (stdout a), or_empty (stderr a)]
                (logger INFO ''{}'' [summary_arg ev] w1), Inr True)
        else (w1, Inr True))
     else if stderr a \<noteq> None \<and> stderr a \<noteq> Some [] then
       (logger CRITICAL ''run failed: stdout {}, stderr {}, event {}''
          [or_empty (stdout a), or_empty (stderr a), summary_arg ev] w1, Inr False)
     else
       (case nonempty_msg (decide_exception_msg a) of
          Some e \<Rightarrow>
            (logger CRITICAL ''run failed: exception <{}>, event was <{}>''
               [AExn e, summary_arg ev] w1, Inr False)
        | None \<Rightarrow>
            (if logging_after_run env w ev
             then (logger CRITICAL ''run failed: stdout {}, stderr {}, exitcode {}, event {}''
                     [or_empty (stdout a), or_empty (stderr a), AInt (exit_code a),
                      summary_arg ev] w1, Inr False)
             else (w1, Inr False))))"
proof -
  have rt: "run_try env w (Some ev) = (w1, a)" by (simp add: w1_def a_def)
  have bl: "baseclass_logs_summary (self w1) = Inr (logging_after_run env w ev)"
    unfolding w1_def using assms(1) by (simp add: run_try_logging)
  show ?thesis
    by (simp add: run_decided_def rt bl summary_of_def split: option.splits)
qed

lemma new_logs_logger:
  "logs w1 = logs w @ ls \<Longrightarrow> new_logs w (logger l f args w1) = new_logs w w1 @ [(l, f, args)]"
  by (simp add: new_logs_def logger_def)





lemma failing_run_decided_logs:
  "new_logs (demo_world ''paging'')
     (fst (run_decided failing_env (demo_world ''paging'') (Some demo_event))) =
   [(DEBUG, ''command is {command}'', [AStr ''notify.sh oncall'']),
    (CRITICAL, ''run failed: stdout {}, stderr {}, event {}'',
     [ABytes ''out'', ABytes ''err'', AStr ''CPU CRIT -> paging oncall''])]"
  by (simp add: run_decided_def run_try_def Let_def logger_def new_logs_def or_empty_def
      summary_of_def summary_arg_def baseclass_logs_summary_def nonempty_msg_def
      demo_env_def failing_env_def demo_world_def demo_event_def)

lemma quiet_run_decided_logs:
  "new_logs (demo_world ''paging'')
     (fst (run_decided quiet_env (demo_world ''paging'') (Some demo_event))) =
   [(DEBUG, ''command is {command}'', [AStr ''notify.sh oncall''])]"
  by (simp add: run_decided_def run_try_def Let_def logger_def new_logs_def or_empty_def
      summary_of_def summary_arg_def baseclass_logs_summary_def nonempty_msg_def
      no_more_logging_def
      demo_env_def quiet_env_def demo_world_def demo_event_def)



text \<open>
  C4, as the specification states it: a command that ends with a non-zero exit code yields
  exactly one \<open>CRITICAL\<close> record with exit code, stdout, stderr and summary. A command
  that writes \<open>err\<close> to its stderr and ends with exit code 2 yields a record without the
  exit code; and a command that writes nothing and ends with exit code 2, built by a
  \<open>run\<close> that has called \<open>no_more_logging\<close>, yields no such record at all.
\<close>

theorem run_decided_exit_code_counterexample:
  "\<not> reports_exit_code
       (new_logs (demo_world ''paging'')
          (fst (run_decided failing_env (demo_world ''paging'') (Some demo_event))))
       2 ''out'' ''err'' demo_event \<and>
   \<not> reports_exit_code
       (new_logs (demo_world ''paging'')
          (fst (run_decided quiet_env (demo_world ''paging'') (Some demo_event))))
       2 [] [] demo_event"
  by (simp add: failing_run_decided_logs quiet_run_decided_logs reports_exit_code_def at_level_def)

text \<open>
  C4, amended: for every executed command that ends with a non-zero exit code,
  \<open>run_decided\<close> returns false and logs at most one \<open>CRITICAL\<close> record: with a non-empty
  stderr, one with stdout, stderr and summary, without the exit code; with an empty
  stderr, one with stdout, stderr, exit code and summary when the logging of the base
  class is not suppressed, and none when it is.
\<close>

theorem run_decided_nonzero_exit:
  assumes "snd (run env (self w) (heap w) ev) = Inr (Some c)" and "c \<noteq> []"
    and "popen env c = Inr (out, err, code)" and "code \<noteq> 0"
    and "self w ''baseclass_logs_summary'' \<noteq> None"
  shows "snd (run_decided env w (Some ev)) = Inr False \<and>
    at_level CRITICAL (new_logs w (fst (run_decided env w (Some ev)))) =
      (if err \<noteq> [] then
         [(CRITICAL, ''run failed: stdout {}, stderr {}, event {}'',
           [or_empty (Some out), ABytes err, summary_arg ev])]
       else if logging_after_run env w ev then
         [(CRITICAL, ''run failed: stdout {}, stderr {}, exitcode {}, event {}'',
           [or_empty (Some out), AStr [], AInt code, summary_arg ev])]
       else [])"
proof -
  let ?w1 = "fst (run_try env w (Some ev))"
  obtain ls where ls: "logs ?w1 = logs w @ ls" using run_try_logs_prefix by blast
  note nl = new_logs_logger [OF ls]
  note quiet = run_try_logs [of w env "Some ev"]
  note a = run_try_executed [OF assms(1-3)]
  note split = run_decided_split [OF assms(5), of env ev]
  show ?thesis
    using quiet assms(4)
    by (simp add: split a nl at_level_def or_empty_def nonempty_msg_def)
qed

theorem run_decided_nonzero_exit_witness:
  "(2::int) \<noteq> 0 \<and>
   snd (run_decided failing_env (demo_world ''paging'') (Some demo_event)) = Inr False \<and>
   at_level CRITICAL (new_logs (demo_world ''paging'')
       (fst (run_decided failing_env (demo_world ''paging'') (Some demo_event)))) =
     [(CRITICAL, ''run failed: stdout {}, stderr {}, event {}'',
       [ABytes ''out'', ABytes ''err'', AStr ''CPU CRIT -> paging oncall''])]"
proof -
  have r: "snd (run failing_env (self (demo_world ''paging'')) (heap (demo_world ''paging''))
      demo_event) = Inr (Some ''notify.sh oncall'')"
    by (simp add: failing_env_def demo_env_def)
  have c: "''notify.sh oncall'' \<noteq> []" by simp
  have p: "popen failing_env ''notify.sh oncall'' = Inr (''out'', ''err'', 2)"
    by (simp add: failing_env_def demo_env_def)
  have n: "(2::int) \<noteq> 0" by simp
  from run_decided_nonzero_exit [OF r c p n demo_present]
  show ?thesis by (simp add: or_empty_def summary_arg_def demo_event_def)
qed

section \<open>What handle returns\<close>

text \<open>A Runner has its summary flag from \<open>__init__\<close> on, whatever its options.\<close>

lemma setattr_loop_keeps: "s k \<noteq> None \<Longrightarrow> setattr_loop ks opts s k \<noteq> None"
  by (induction ks arbitrary: s) (auto split: option.splits)

lemma EventhandlerRunner_has_flag: "EventhandlerRunner opts ''baseclass_logs_summary'' \<noteq> None"
  by (simp add: EventhandlerRunner_def setattr_loop_keeps)




section \<open>The timeout decorator: what is restored\<close>

text \<open>
  C8, as the specification states it, has a previously pending alarm restored when the
  wrapped call is over. With an alarm due in 30 seconds before a wrapped call of one second
  under a deadline of five, no alarm is pending afterwards. And a deadline of \<open>0\<close> seconds
  sets no alarm at all: a wrapped call of ten seconds returns its result.
\<close>

theorem timeout_pending_alarm_counterexample:
  "alarm_pending busy_signals \<and>
   \<not> alarm_pending (snd (timeout 5 ''Timeout'' quick_func busy_signals)) \<and>
   0 < duration slow_func \<and>
   fst (timeout 0 ''Timeout'' slow_func busy_signals) = Inr ()"
  by (simp add: alarm_pending_def busy_signals_def quick_func_def slow_func_def timeout_def
      signal_signal_def signal_alarm_def call_func_def)

text \<open>
  C8, amended: under a deadline of \<open>seconds > 0\<close>, a wrapped call that overruns the deadline
  ends in \<open>RunnerTimeoutError\<close> with the configured message instead of its own result; with
  no deadline (\<open>seconds = 0\<close>) or when it is done before the deadline, the call ends as it
  would by itself. Whether it returns or raises, afterwards the handler that was installed
  before is installed again and no alarm is pending: a previously pending alarm is
  cancelled, not restored.
\<close>

theorem timeout_raises_restores_handler_cancels_alarm:
  "(0 < seconds \<and> seconds < duration f \<longrightarrow>
      fst (timeout seconds error_message f s) = Inl (RunnerTimeoutError error_message)) \<and>
   (seconds = 0 \<or> duration f < seconds \<longrightarrow>
      fst (timeout seconds error_message f s) = outcome f) \<and>
   sigalrm (snd (timeout seconds error_message f s)) = sigalrm s \<and>
   alarm (snd (timeout seconds error_message f s)) = 0"
  by (auto simp: timeout_def signal_signal_def signal_alarm_def call_func_def)

theorem timeout_witness:
  "(0::nat) < 5 \<and> 5 < duration slow_func \<and>
   fst (timeout 5 ''Timeout'' slow_func busy_signals) = Inl (RunnerTimeoutError ''Timeout'') \<and>
   duration quick_func < 5 \<and>
   fst (timeout 5 ''Timeout'' quick_func busy_signals) = Inr ()"
  using timeout_raises_restores_handler_cancels_alarm [of 5 slow_func "''Timeout''" busy_signals]
    timeout_raises_restores_handler_cancels_alarm [of 5 quick_func "''Timeout''" busy_signals]
  by (simp add: slow_func_def quick_func_def)

end
